theory Spec2Isabelle
  imports Main
begin

section \<open>Common types\<close>

text \<open>
  Go strings are byte sequences and \<open>len\<close> counts bytes, so a Go string is a
  \<open>string\<close> (a list of \<open>char\<close>, one per byte).

  A Go \<open>error\<close> is either made here by \<open>fmt.Errorf\<close> (it carries its formatted
  message), or handed back by a collaborator (file system, YAML parser, share backend
  client, cluster client) and passed on untouched, or the error of the polling loop
  whose budget ran out. A nil error is \<open>None\<close>. The receivers and arguments that Go
  passes by pointer (\<open>sc\<close>, \<open>loc\<close>, \<open>args\<close>) are taken to be non-nil.
\<close>

datatype error =
    Errorf string
  | External string
  | ErrTimeout

text \<open>The diagnostics sink (glog): leveled messages, collected in the order written.\<close>

datatype diagnostic = Warningf string | Errorf_log string

text \<open>\<open>err.Error()\<close>, as the \<open>%v\<close> verb prints an error.\<close>

fun errorText :: "error \<Rightarrow> string" where
  "errorText (Errorf m) = m"
| "errorText (External m) = m"
| "errorText ErrTimeout = ''A timeout occurred''"

section \<open>The functions of package strings that the code calls\<close>

text \<open>
  \<open>strings.Contains(s, substr)\<close>: some suffix of \<open>s\<close> starts with \<open>substr\<close>.
\<close>

fun Contains :: "string \<Rightarrow> string \<Rightarrow> bool" where
  "Contains [] substr = (substr = [])"
| "Contains (c # cs) substr =
     (take (length substr) (c # cs) = substr \<or> Contains cs substr)"

text \<open>
  \<open>strings.Replace(s, old, new, -1)\<close>: every non-overlapping occurrence of \<open>old\<close>,
  found scanning from the left, is replaced by \<open>new\<close>. The program only calls it with
  the two-byte patterns \<open>%i\<close>, \<open>%n\<close> and \<open>%d\<close>; for an empty \<open>old\<close> Go
  inserts \<open>new\<close> before every character and at the end, which is written out for
  one-byte characters.
\<close>

function Replace :: "string \<Rightarrow> string \<Rightarrow> string \<Rightarrow> string" where
  "Replace s old new =
     (if old = [] then new @ concat (map (\<lambda>c. c # new) s)
      else if s = [] then []
      else if take (length old) s = old then new @ Replace (drop (length old) s) old new
      else hd s # Replace (tl s) old new)"
  by pat_completeness auto
termination
  by (relation "measure (\<lambda>(s, old, new). length s)") auto

declare Replace.simps [simp del]

text \<open>\<open>strings.Join(elems, sep)\<close>.\<close>

fun Join :: "string list \<Rightarrow> string \<Rightarrow> string" where
  "Join [] sep = []"
| "Join [x] sep = x"
| "Join (x # y # ys) sep = x @ sep @ Join (y # ys) sep"

text \<open>
  \<open>strings.LastIndexByte(s, c)\<close>: the loop runs \<open>i\<close> from \<open>len(s) - 1\<close> down to
  \<open>0\<close> and returns the first \<open>i\<close> with \<open>s[i] == c\<close>, and \<open>-1\<close> after the loop.
  \<open>lastIndexFrom n\<close> is the loop with \<open>n\<close> positions still to inspect.
\<close>

fun lastIndexFrom :: "nat \<Rightarrow> string \<Rightarrow> char \<Rightarrow> int" where
  "lastIndexFrom 0 s c = -1"
| "lastIndexFrom (Suc i) s c = (if s ! i = c then int i else lastIndexFrom i s c)"

definition LastIndexByte :: "string \<Rightarrow> char \<Rightarrow> int" where
  "LastIndexByte s c = lastIndexFrom (length s) s c"

text \<open>The \<open>%d\<close> verb on a non-negative integer: its decimal digits.\<close>

definition digitChar :: "nat \<Rightarrow> char" where
  "digitChar d = ''0123456789'' ! d"

fun showNat :: "nat \<Rightarrow> string" where
  "showNat n = (if n < 10 then [digitChar n] else showNat (n div 10) @ [digitChar (n mod 10)])"

declare showNat.simps [simp del]

section \<open>Package keystone: the sync configuration\<close>

definition allowedDataTypesToSync :: "string list" where
  "allowedDataTypesToSync = [''projects'']"

record syncConfig =
  DataTypesToSync :: "string list"
  NamespaceFormat :: string
  ProjectBlackList :: "string list"

subsection \<open>The regular expression of validate\<close>

text \<open>
  \<open>^[a-zA-Z0-9][a-zA-Z0-9_.-]*[a-zA-Z0-9]$\<close> without flags: \<open>^\<close> and \<open>$\<close> are
  the two ends of the text, so \<open>MatchString\<close> holds when the whole string is one
  character of the first class, then any number of the second, then one of the first.
  Both classes are ASCII, so a byte of a longer UTF-8 sequence is in neither.
\<close>

definition alnum :: "char \<Rightarrow> bool" where
  "alnum c = (let n = (of_char c :: nat) in
     (97 \<le> n \<and> n \<le> 122) \<or> (65 \<le> n \<and> n \<le> 90) \<or> (48 \<le> n \<and> n \<le> 57))"

definition nameChar :: "char \<Rightarrow> bool" where
  "nameChar c = (alnum c \<or> c = CHR ''_'' \<or> c = CHR ''.'' \<or> c = CHR ''-'')"

definition reMatchString :: "string \<Rightarrow> bool" where
  "reMatchString ts =
     (2 \<le> length ts \<and> alnum (hd ts) \<and> alnum (last ts) \<and> list_all nameChar (butlast (tl ts)))"

subsection \<open>validate\<close>

definition errNoProjectId :: error where
  "errNoProjectId = Errorf ''format string should comprise a %i substring (keystone project id)''"

definition errBadName :: error where
  "errBadName = Errorf (''namespace name must consist of alphanumeric characters, '' @
     [CHR 0x27] @ ''-'' @ [CHR 0x27] @ '', '' @ [CHR 0x27] @ ''_'' @ [CHR 0x27] @ '' or '' @
     [CHR 0x27] @ ''.'' @ [CHR 0x27] @
     '', and must start and end with an alphanumeric character'')"

definition errUnsupported :: "string \<Rightarrow> error" where
  "errUnsupported dt = Errorf (''Unsupported data type to sync: '' @ dt @
     ''. Available values: '' @ Join allowedDataTypesToSync '','')"

text \<open>The inner loop: is \<open>dt\<close> one of the allowed values (the variable \<open>flag\<close>).\<close>

fun allowedFlag :: "string list \<Rightarrow> string \<Rightarrow> bool" where
  "allowedFlag [] dt = False"
| "allowedFlag (a # as) dt = (if a = dt then True else allowedFlag as dt)"

text \<open>The outer loop: the first data type that is not allowed ends validate.\<close>

fun checkDataTypes :: "string list \<Rightarrow> error option" where
  "checkDataTypes [] = None"
| "checkDataTypes (dt # dts) =
     (if \<not> allowedFlag allowedDataTypesToSync dt then Some (errUnsupported dt)
      else checkDataTypes dts)"

definition testString :: "string \<Rightarrow> string" where
  "testString f = Replace (Replace (Replace f ''%i'' ''aa'') ''%n'' ''aa'') ''%d'' ''aa''"

definition validate :: "syncConfig \<Rightarrow> error option" where
  "validate sc =
     (if \<not> Contains (NamespaceFormat sc) ''%i'' then Some errNoProjectId
      else let ts = testString (NamespaceFormat sc) in
        if \<not> reMatchString ts then Some errBadName
        else checkDataTypes (DataTypesToSync sc))"

subsection \<open>formatNamespaceName\<close>

definition substituted :: "string \<Rightarrow> string \<Rightarrow> string \<Rightarrow> string \<Rightarrow> string" where
  "substituted f id' name domain =
     Replace (Replace (Replace f ''%i'' id') ''%n'' name) ''%d'' domain"

definition lengthWarning :: "string \<Rightarrow> string \<Rightarrow> diagnostic" where
  "lengthWarning res id' = Warningf (''Generated namespace name '' @ [CHR 0x27] @ res @
     [CHR 0x27] @ '' exceeds the maximum possible length of 63 characters. '' @
     ''Just Keystone project id '' @ [CHR 0x27] @ id' @ [CHR 0x27] @
     '' will be used as the namespace name.'')"

text \<open>The result, and what was written to the diagnostics sink.\<close>

definition formatNamespaceName ::
  "syncConfig \<Rightarrow> string \<Rightarrow> string \<Rightarrow> string \<Rightarrow> string \<times> diagnostic list" where
  "formatNamespaceName sc id' name domain =
     (let res = substituted (NamespaceFormat sc) id' name domain in
      if length res > 63 then (id', [lengthWarning res id'])
      else (res, []))"

text \<open>
  The reading to compare with: the three placeholders substituted in one pass over the
  template, from the left, so that text put in by a substitution is never looked at
  again.
\<close>

fun substituteAtOnce :: "string \<Rightarrow> string \<Rightarrow> string \<Rightarrow> string \<Rightarrow> string" where
  "substituteAtOnce (c1 # c2 # cs) i n d =
     (if c1 = CHR ''%'' \<and> c2 = CHR ''i'' then i @ substituteAtOnce cs i n d
      else if c1 = CHR ''%'' \<and> c2 = CHR ''n'' then n @ substituteAtOnce cs i n d
      else if c1 = CHR ''%'' \<and> c2 = CHR ''d'' then d @ substituteAtOnce cs i n d
      else c1 # substituteAtOnce (c2 # cs) i n d)"
| "substituteAtOnce cs i n d = cs"

subsection \<open>newSyncConfig and newSyncConfigFromFile\<close>

definition newSyncConfig :: syncConfig where
  "newSyncConfig =
     \<lparr>DataTypesToSync = allowedDataTypesToSync, NamespaceFormat = ''%i'', ProjectBlackList = []\<rparr>"

text \<open>
  Modelled from the spec: \<open>ioutil.ReadFile\<close> and \<open>yaml.Unmarshal\<close> are library code
  outside the repository. The file system answers a path with bytes or an error; the
  parser answers bytes with an error or with a document whose three optional fields
  \<open>data_types_to_sync\<close>, \<open>namespace_format\<close> and \<open>projects_black_list\<close> are
  present or absent; unmarshalling into a struct sets the fields that are present and
  leaves the others as they were.
\<close>

record document =
  data_types_to_sync :: "string list option"
  namespace_format :: "string option"
  projects_black_list :: "string list option"

record env =
  ReadFile :: "string \<Rightarrow> string \<times> error option"
  parseYAML :: "string \<Rightarrow> document \<times> error option"

definition overlay :: "document \<Rightarrow> syncConfig \<Rightarrow> syncConfig" where
  "overlay doc sc =
     \<lparr>DataTypesToSync = (case data_types_to_sync doc of None \<Rightarrow> DataTypesToSync sc | Some v \<Rightarrow> v),
      NamespaceFormat = (case namespace_format doc of None \<Rightarrow> NamespaceFormat sc | Some v \<Rightarrow> v),
      ProjectBlackList = (case projects_black_list doc of None \<Rightarrow> ProjectBlackList sc | Some v \<Rightarrow> v)\<rparr>"

definition Unmarshal :: "env \<Rightarrow> string \<Rightarrow> syncConfig \<Rightarrow> syncConfig \<times> error option" where
  "Unmarshal e bytes sc =
     (case parseYAML e bytes of
        (doc, Some err) \<Rightarrow> (sc, Some err)
      | (doc, None) \<Rightarrow> (overlay doc sc, None))"

text \<open>The pointer and the error returned, and what was written to the diagnostics sink.\<close>

definition newSyncConfigFromFile ::
  "env \<Rightarrow> string \<Rightarrow> (syncConfig option \<times> error option) \<times> diagnostic list" where
  "newSyncConfigFromFile e path =
     (let sc = newSyncConfig in
      case ReadFile e path of
        (yamlFile, Some err) \<Rightarrow>
          ((None, Some err), [Errorf_log (''yamlFile get err   #'' @ errorText err @ '' '')])
      | (yamlFile, None) \<Rightarrow>
          (case Unmarshal e yamlFile sc of
             (sc', Some err) \<Rightarrow> ((None, Some err), [Errorf_log (''Unmarshal: '' @ errorText err)])
           | (sc', None) \<Rightarrow> ((Some sc', None), [])))"

section \<open>Package sharebackends\<close>

definition getSecretName :: "string \<Rightarrow> string" where
  "getSecretName shareID = ''manila-'' @ shareID"

subsection \<open>splitExportLocation\<close>

text \<open>Of \<open>shares.ExportLocation\<close> the code reads the field \<open>Path\<close> only.\<close>

record ExportLocation =
  Path :: string

definition errParseLocation :: "string \<Rightarrow> error" where
  "errParseLocation path = Errorf (''failed to parse address and location from export location '' @
     [CHR 0x27] @ path @ [CHR 0x27])"

text \<open>
  The three named results \<open>(address, location, err)\<close>; on the early return the two
  strings still hold their zero value.
\<close>

definition splitExportLocation :: "ExportLocation \<Rightarrow> string \<times> string \<times> error option" where
  "splitExportLocation loc =
     (let delimPos = LastIndexByte (Path loc) (CHR '':'') in
      if delimPos \<le> 0 then ([], [], Some (errParseLocation (Path loc)))
      else (take (nat delimPos) (Path loc), drop (nat (delimPos + 1)) (Path loc), None))"

subsection \<open>createSecret and deleteSecret\<close>

text \<open>
  Of \<open>v1.Secret\<close> the code sets \<open>Name\<close> and \<open>Data\<close> (a map from keys to bytes).
  The cluster client is a collaborator: whatever it is, it answers \<open>Create\<close> in a
  namespace with a stored secret and an error, and \<open>Delete\<close> with an error, and may
  change the cluster's state \<open>'c\<close> on the way.
\<close>

record Secret =
  Name :: string
  Data :: "string \<rightharpoonup> string"

record 'c clientset =
  SecretsCreate :: "string \<Rightarrow> Secret \<Rightarrow> 'c \<Rightarrow> (Secret option \<times> error option) \<times> 'c"
  SecretsDelete :: "string \<Rightarrow> string \<Rightarrow> 'c \<Rightarrow> error option \<times> 'c"

definition createSecret ::
  "string \<Rightarrow> string \<Rightarrow> 'c clientset \<Rightarrow> (string \<rightharpoonup> string) \<Rightarrow> 'c \<Rightarrow> error option \<times> 'c" where
  "createSecret name namespace cs data' st =
     (let sec = \<lparr>Name = name, Data = data'\<rparr> in
      case SecretsCreate cs namespace sec st of
        ((created, Some err), st') \<Rightarrow> (Some err, st')
      | ((created, None), st') \<Rightarrow> (None, st'))"

definition deleteSecret :: "string \<Rightarrow> string \<Rightarrow> 'c clientset \<Rightarrow> 'c \<Rightarrow> error option \<times> 'c" where
  "deleteSecret name namespace cs st = SecretsDelete cs namespace name st"

subsection \<open>grantAccessCephx\<close>

text \<open>
  The types of gophercloud that the code touches. Of the share it reads \<open>ID\<close> and
  \<open>Name\<close>; an access right has the seven string fields below, all empty in its zero
  value.
\<close>

record Share =
  Share_ID :: string
  Share_Name :: string

record GrantAccessArgs =
  Share :: Share

record GrantAccessOpts =
  Opts_AccessType :: string
  Opts_AccessTo :: string
  Opts_AccessLevel :: string

record AccessRight =
  ShareID :: string
  AccessType :: string
  AccessTo :: string
  AccessKey :: string
  AccessLevel :: string
  State :: string
  ID :: string

definition zeroAccessRight :: AccessRight where
  "zeroAccessRight = \<lparr>ShareID = [], AccessType = [], AccessTo = [], AccessKey = [],
     AccessLevel = [], State = [], ID = []\<rparr>"

text \<open>
  Modelled from the spec: the share backend client (\<open>args.Client\<close> with
  \<open>shares.GrantAccess\<close> and \<open>shares.ListAccessRights\<close>) is a black box that answers
  each call. Its answers are a script: the answer to the \<open>k\<close>-th grant-access call
  and to the \<open>k\<close>-th list-access-rights call (counted from 0); the two counters record
  how many calls were made.
\<close>

record backend =
  grantAnswer :: "nat \<Rightarrow> string \<Rightarrow> GrantAccessOpts \<Rightarrow> error option"
  listAnswer :: "nat \<Rightarrow> string \<Rightarrow> AccessRight list \<times> error option"
  grantCalls :: nat
  listCalls :: nat

definition GrantAccess :: "string \<Rightarrow> GrantAccessOpts \<Rightarrow> backend \<Rightarrow> error option \<times> backend" where
  "GrantAccess shareID opts b =
     (grantAnswer b (grantCalls b) shareID opts, b\<lparr>grantCalls := Suc (grantCalls b)\<rparr>)"

definition ListAccessRights ::
  "string \<Rightarrow> backend \<Rightarrow> (AccessRight list \<times> error option) \<times> backend" where
  "ListAccessRights shareID b =
     (listAnswer b (listCalls b) shareID, b\<lparr>listCalls := Suc (listCalls b)\<rparr>)"

text \<open>
  Modelled from the spec: \<open>gophercloud.WaitFor(timeout, predicate)\<close> is library code
  outside the repository. It polls the predicate on a fixed interval up to a budget of
  \<open>timeout\<close> time units: one poll per time unit, an error of the predicate ends the
  wait with that error, \<open>true\<close> ends it with nil, and a budget that has run out ends it
  with a timeout error. The first argument is the budget still left; \<open>'s\<close> is the
  state the predicate works on.
\<close>

fun WaitFor ::
  "nat \<Rightarrow> ('s \<Rightarrow> (bool \<times> error option) \<times> 's) \<Rightarrow> 's \<Rightarrow> error option \<times> 's" where
  "WaitFor 0 predicate s = (Some ErrTimeout, s)"
| "WaitFor (Suc n) predicate s =
     (case predicate s of
        ((satisfied, Some err), s') \<Rightarrow> (Some err, s')
      | ((True, None), s') \<Rightarrow> (None, s')
      | ((False, None), s') \<Rightarrow> WaitFor n predicate s')"

definition errAccessRules :: "nat \<Rightarrow> error" where
  "errAccessRules n =
     Errorf (''unexpected number of access rules: got '' @ showNat n @ '', expected 1'')"

text \<open>
  The closure handed to \<open>WaitFor\<close>. Its state is the backend and the captured
  variable \<open>accessRight\<close>.
\<close>

fun pollAccessRight ::
  "string \<Rightarrow> backend \<times> AccessRight \<Rightarrow> (bool \<times> error option) \<times> (backend \<times> AccessRight)" where
  "pollAccessRight shareID (b, accessRight) =
     (case ListAccessRights shareID b of
        ((accessRights, Some err), b') \<Rightarrow> ((False, Some err), (b', accessRight))
      | ((accessRights, None), b') \<Rightarrow>
          if length accessRights > 1 then
            ((False, Some (errAccessRules (length accessRights))), (b', accessRight))
          else if length accessRights = 0 then ((False, None), (b', accessRight))
          else if AccessKey (accessRights ! 0) \<noteq> [] then ((True, None), (b', accessRights ! 0))
          else ((False, None), (b', accessRight)))"

declare pollAccessRight.simps [simp del]

text \<open>The options of the grant-access request.\<close>

definition accessOpts :: "GrantAccessArgs \<Rightarrow> GrantAccessOpts" where
  "accessOpts args = \<lparr>Opts_AccessType = ''cephx'', Opts_AccessTo = Share_Name (Share args),
     Opts_AccessLevel = ''rw''\<rparr>"

text \<open>The pointer (nil is \<open>None\<close>) and the error returned, and the backend afterwards.\<close>

definition grantAccessCephx ::
  "GrantAccessArgs \<Rightarrow> backend \<Rightarrow> (AccessRight option \<times> error option) \<times> backend" where
  "grantAccessCephx args b =
     (case GrantAccess (Share_ID (Share args)) (accessOpts args) b of
        (Some err, b') \<Rightarrow> ((None, Some err), b')
      | (None, b') \<Rightarrow>
          (case WaitFor 120 (pollAccessRight (Share_ID (Share args))) (b', zeroAccessRight) of
             (err, (b'', accessRight)) \<Rightarrow> ((Some accessRight, err), b'')))"

text \<open>
  An answer to list-access-rights after which the closure returns \<open>(false, nil)\<close>: no
  error, and either no record or exactly one record whose access key is empty.
\<close>

definition notYetReady :: "AccessRight list \<times> error option \<Rightarrow> bool" where
  "notYetReady answer =
     (snd answer = None \<and>
      (case fst answer of [] \<Rightarrow> True | [r] \<Rightarrow> AccessKey r = [] | _ \<Rightarrow> False))"

subsection \<open>Scripted backends for the examples\<close>

text \<open>
  A share, an access right before and after the backend has filled in its key, and a
  backend that answers every grant-access call with \<open>g\<close> and the \<open>k\<close>-th
  list-access-rights call with \<open>l k\<close>.
\<close>

definition exampleArgs :: GrantAccessArgs where
  "exampleArgs = \<lparr>Share = \<lparr>Share_ID = ''s1'', Share_Name = ''share-1''\<rparr>\<rparr>"

definition pendingRight :: AccessRight where
  "pendingRight = \<lparr>ShareID = ''s1'', AccessType = ''cephx'', AccessTo = ''share-1'',
     AccessKey = [], AccessLevel = ''rw'', State = ''new'', ID = ''a1''\<rparr>"

definition readyRight :: AccessRight where
  "readyRight = \<lparr>ShareID = ''s1'', AccessType = ''cephx'', AccessTo = ''share-1'',
     AccessKey = ''AQA7'', AccessLevel = ''rw'', State = ''active'', ID = ''a1''\<rparr>"

definition scriptedBackend ::
  "error option \<Rightarrow> (nat \<Rightarrow> AccessRight list \<times> error option) \<Rightarrow> backend" where
  "scriptedBackend g l =
     \<lparr>grantAnswer = (\<lambda>k shareID opts. g), listAnswer = (\<lambda>k shareID. l k),
      grantCalls = 0, listCalls = 0\<rparr>"

section \<open>Facts about the string functions\<close>

lemma Replace_Nil2 [simp]: "Replace [] [a, b] new = []"
  by (simp add: Replace.simps)

lemma Replace_single2 [simp]: "Replace [c] [a, b] new = [c]"
  by (simp add: Replace.simps)

lemma Replace_hit2 [simp]: "Replace (a # b # cs) [a, b] new = new @ Replace cs [a, b] new"
  by (subst Replace.simps) simp

lemma Replace_miss_fst [simp]: "c \<noteq> a \<Longrightarrow> Replace (c # cs) [a, b] new = c # Replace cs [a, b] new"
  by (subst Replace.simps) (cases cs; simp)

lemma Replace_miss_snd [simp]: "d \<noteq> b \<Longrightarrow> Replace (c # d # cs) [a, b] new = c # Replace (d # cs) [a, b] new"
  by (subst Replace.simps) simp

lemma Replace_append_clean:
  "a \<notin> set u \<Longrightarrow> Replace (u @ v) [a, b] new = u @ Replace v [a, b] new"
  by (induction u) auto

lemma substituted_at_once:
  "CHR ''%'' \<notin> set i \<Longrightarrow> CHR ''%'' \<notin> set n \<Longrightarrow> \<not> Contains f ''%%'' \<Longrightarrow>
   substituted f i n d = substituteAtOnce f i n d"
  by (induction f i n d rule: substituteAtOnce.induct)
    (auto simp: substituted_def Replace_append_clean)

lemma Replace_head:
  assumes "Replace s [CHR ''%'', x] new = y # t" and "new \<noteq> []"
  shows "y = hd new \<or> (\<exists>t'. s = y # t')"
proof (cases s)
  case Nil
  with assms show ?thesis by simp
next
  case (Cons c cs)
  show ?thesis
  proof (cases "c = CHR ''%''")
    case False
    with Cons assms show ?thesis by simp
  next
    case True
    show ?thesis
    proof (cases cs)
      case Nil
      with \<open>s = c # cs\<close> assms show ?thesis by simp
    next
      case (Cons d ds)
      with \<open>s = c # cs\<close> True assms show ?thesis
        by (cases "d = x"; cases new) auto
    qed
  qed
qed

lemma Replace_percent:
  "\<forall>t. Y \<noteq> x # t \<Longrightarrow>
   Replace (CHR ''%'' # Y) [CHR ''%'', x] new = CHR ''%'' # Replace Y [CHR ''%'', x] new"
  by (cases Y) auto

lemma substituted_percent:
  assumes "i \<noteq> []" "n \<noteq> []" "hd i \<noteq> CHR ''n''" "hd i \<noteq> CHR ''d''" "hd n \<noteq> CHR ''d''"
    and "c2 \<noteq> CHR ''i''" "c2 \<noteq> CHR ''n''" "c2 \<noteq> CHR ''d''"
  shows "substituted (CHR ''%'' # c2 # cs) i n d = CHR ''%'' # substituted (c2 # cs) i n d"
proof -
  let ?Y = "Replace (c2 # cs) ''%i'' i"
  let ?Z = "Replace ?Y ''%n'' n"
  have y: "\<forall>t. ?Y \<noteq> CHR ''n'' # t" "\<forall>t. ?Y \<noteq> CHR ''d'' # t"
    using Replace_head [of "c2 # cs" "CHR ''i''" i] assms by auto
  have z: "\<forall>t. ?Z \<noteq> CHR ''d'' # t"
    using Replace_head [of ?Y "CHR ''n''" n "CHR ''d''"] y(2) assms by auto
  have "Replace (CHR ''%'' # c2 # cs) ''%i'' i = CHR ''%'' # ?Y"
    using assms(6) by simp
  then show ?thesis
    by (simp add: substituted_def Replace_percent [OF y(1)] Replace_percent [OF z])
qed

lemma substituted_at_once_heads:
  "CHR ''%'' \<notin> set i \<Longrightarrow> CHR ''%'' \<notin> set n \<Longrightarrow> i \<noteq> [] \<Longrightarrow> n \<noteq> [] \<Longrightarrow>
   hd i \<noteq> CHR ''n'' \<Longrightarrow> hd i \<noteq> CHR ''d'' \<Longrightarrow> hd n \<noteq> CHR ''d'' \<Longrightarrow>
   substituted f i n d = substituteAtOnce f i n d"
proof (induction f i n d rule: substituteAtOnce.induct)
  case (1 c1 c2 cs i n d)
  show ?case
  proof (cases "c1 = CHR ''%''")
    case False
    with 1 show ?thesis by (simp add: substituted_def)
  next
    case True
    consider "c2 = CHR ''i''" | "c2 = CHR ''n''" | "c2 = CHR ''d''"
      | "c2 \<noteq> CHR ''i''" "c2 \<noteq> CHR ''n''" "c2 \<noteq> CHR ''d''" by blast
    then show ?thesis
    proof cases
      case 4
      with True 1 show ?thesis by (simp add: substituted_percent)
    qed (use True 1 in \<open>simp_all add: substituted_def Replace_append_clean\<close>)
  qed
qed (simp_all add: substituted_def)

lemma testString_at_once: "testString f = substituteAtOnce f ''aa'' ''aa'' ''aa''"
  using substituted_at_once_heads [of "''aa''" "''aa''" f "''aa''"]
  by (simp add: testString_def substituted_def)

lemma lastIndexFrom_none: "lastIndexFrom n s c = -1 \<longleftrightarrow> (\<forall>i<n. s ! i \<noteq> c)"
  by (induction n) (auto simp: less_Suc_eq)

lemma lastIndexFrom_found:
  "lastIndexFrom n s c \<noteq> -1 \<Longrightarrow>
     \<exists>k<n. lastIndexFrom n s c = int k \<and> s ! k = c \<and> (\<forall>j. k < j \<and> j < n \<longrightarrow> s ! j \<noteq> c)"
proof (induction n)
  case 0
  then show ?case by simp
next
  case (Suc n)
  show ?case
  proof (cases "s ! n = c")
    case True
    then show ?thesis by auto
  next
    case False
    with Suc.prems have "lastIndexFrom n s c \<noteq> -1" by simp
    from Suc.IH [OF this] obtain k where k: "k < n" "lastIndexFrom n s c = int k" "s ! k = c"
      "\<forall>j. k < j \<and> j < n \<longrightarrow> s ! j \<noteq> c" by blast
    with False have "\<forall>j. k < j \<and> j < Suc n \<longrightarrow> s ! j \<noteq> c"
      by (auto simp: less_Suc_eq)
    with k False show ?thesis by (intro exI [of _ k]) simp
  qed
qed

lemma LastIndexByte_none: "LastIndexByte s c = -1 \<longleftrightarrow> c \<notin> set s"
  by (auto simp: LastIndexByte_def lastIndexFrom_none in_set_conv_nth)

lemma LastIndexByte_found:
  assumes "LastIndexByte s c \<noteq> -1"
  shows "\<exists>a l. s = a @ c # l \<and> c \<notin> set l \<and> LastIndexByte s c = int (length a)"
proof -
  from assms obtain k where k: "k < length s" "LastIndexByte s c = int k" "s ! k = c"
    "\<forall>j. k < j \<and> j < length s \<longrightarrow> s ! j \<noteq> c"
    unfolding LastIndexByte_def using lastIndexFrom_found by blast
  have "s = take k s @ c # drop (Suc k) s"
    using k(1,3) id_take_nth_drop by blast
  moreover have "c \<notin> set (drop (Suc k) s)"
  proof
    assume "c \<in> set (drop (Suc k) s)"
    then obtain i where "i < length s - Suc k" "drop (Suc k) s ! i = c"
      by (auto simp: in_set_conv_nth)
    then have "Suc k + i < length s" "s ! (Suc k + i) = c" by auto
    with k(4) show False by (metis less_add_Suc1 add_Suc)
  qed
  moreover have "length (take k s) = k" using k(1) by simp
  ultimately show ?thesis using k(2) by metis
qed

lemma LastIndexByte_last:
  "c \<notin> set l \<Longrightarrow> LastIndexByte (a @ c # l) c = int (length a)"
proof -
  assume l: "c \<notin> set l"
  have "LastIndexByte (a @ c # l) c \<noteq> -1" by (simp add: LastIndexByte_none)
  from LastIndexByte_found [OF this] obtain a' l' where
    e: "a @ c # l = a' @ c # l'" "c \<notin> set l'" "LastIndexByte (a @ c # l) c = int (length a')"
    by blast
  have "a = a'"
  proof (rule ccontr)
    assume "a \<noteq> a'"
    with e(1) l e(2) show False
      by (auto simp: append_eq_append_conv2 append_eq_Cons_conv Cons_eq_append_conv)
  qed
  with e(3) show ?thesis by simp
qed

lemma LastIndexByte_le0:
  "LastIndexByte s c \<le> 0 \<longleftrightarrow> c \<notin> set s \<or> (\<exists>l. s = c # l \<and> c \<notin> set l)"
proof
  assume le: "LastIndexByte s c \<le> 0"
  show "c \<notin> set s \<or> (\<exists>l. s = c # l \<and> c \<notin> set l)"
  proof (cases "LastIndexByte s c = -1")
    case True
    then show ?thesis by (simp add: LastIndexByte_none)
  next
    case False
    from LastIndexByte_found [OF this] obtain a l where
      "s = a @ c # l" "c \<notin> set l" "LastIndexByte s c = int (length a)" by blast
    with le show ?thesis by simp
  qed
next
  assume "c \<notin> set s \<or> (\<exists>l. s = c # l \<and> c \<notin> set l)"
  then show "LastIndexByte s c \<le> 0"
  proof
    assume "c \<notin> set s"
    then have "LastIndexByte s c = -1" by (simp add: LastIndexByte_none)
    then show ?thesis by simp
  next
    assume "\<exists>l. s = c # l \<and> c \<notin> set l"
    then obtain l where "s = [] @ c # l" "c \<notin> set l" by auto
    then have "LastIndexByte s c = int (length ([] :: string))"
      using LastIndexByte_last by blast
    then show ?thesis by simp
  qed
qed

section \<open>The sync configuration\<close>

lemma allowedFlag_iff: "allowedFlag as dt \<longleftrightarrow> dt \<in> set as"
  by (induction as) auto

lemma checkDataTypes_find:
  "checkDataTypes dts =
     map_option errUnsupported (find (\<lambda>dt. dt \<notin> set allowedDataTypesToSync) dts)"
  by (induction dts) (simp_all add: allowedFlag_iff)

lemma checkDataTypes_None_iff:
  "checkDataTypes dts = None \<longleftrightarrow> set dts \<subseteq> set allowedDataTypesToSync"
  by (induction dts) (simp_all add: allowedFlag_iff)

lemma reMatchString_shape:
  "reMatchString ts \<longleftrightarrow>
     (\<exists>a mid b. ts = a # mid @ [b] \<and> alnum a \<and> alnum b \<and> list_all nameChar mid)"
proof
  assume m: "reMatchString ts"
  then obtain a rest where ts: "ts = a # rest" and "rest \<noteq> []"
    by (cases ts; cases "tl ts") (auto simp: reMatchString_def)
  then have "ts = a # butlast rest @ [last rest]" by simp
  moreover from m ts \<open>rest \<noteq> []\<close> have "alnum a" "alnum (last rest)" "list_all nameChar (butlast rest)"
    by (auto simp: reMatchString_def)
  ultimately show "\<exists>a mid b. ts = a # mid @ [b] \<and> alnum a \<and> alnum b \<and> list_all nameChar mid"
    by blast
next
  assume "\<exists>a mid b. ts = a # mid @ [b] \<and> alnum a \<and> alnum b \<and> list_all nameChar mid"
  then show "reMatchString ts"
    by (auto simp: reMatchString_def)
qed

text \<open>
  Claim C3. validate succeeds exactly when the template contains \<open>%i\<close>, the test string
  (the template with \<open>aa\<close> put for each of \<open>%i\<close>, \<open>%n\<close>, \<open>%d\<close>) is one
  alphanumeric character, then characters among the alphanumerics, \<open>_\<close>, \<open>.\<close> and
  \<open>-\<close>, then one alphanumeric character, and every data type to sync is in the
  allow-list \<open>{projects}\<close>. For this placeholder the three passes of the code and the
  substitution in one pass give the same test string. A template without \<open>%i\<close> fails whatever else the
  configuration holds. The checks run in this order, so once the template has passed,
  the first data type outside the allow-list gives the error that names it and lists
  the allowed values; and a configuration with such a data type never validates.
\<close>

theorem validate_characterised:
  "(validate sc = None \<longleftrightarrow>
      Contains (NamespaceFormat sc) ''%i'' \<and>
      (\<exists>a mid b. testString (NamespaceFormat sc) = a # mid @ [b] \<and> alnum a \<and> alnum b \<and>
         list_all nameChar mid) \<and>
      set (DataTypesToSync sc) \<subseteq> {''projects''})
   \<and> testString (NamespaceFormat sc) = substituteAtOnce (NamespaceFormat sc) ''aa'' ''aa'' ''aa''
   \<and> (\<not> Contains (NamespaceFormat sc) ''%i'' \<longrightarrow> validate sc = Some errNoProjectId)
   \<and> (Contains (NamespaceFormat sc) ''%i'' \<and> \<not> reMatchString (testString (NamespaceFormat sc)) \<longrightarrow>
        validate sc = Some errBadName)
   \<and> (\<forall>dt. Contains (NamespaceFormat sc) ''%i'' \<and> reMatchString (testString (NamespaceFormat sc)) \<and>
        find (\<lambda>dt. dt \<notin> {''projects''}) (DataTypesToSync sc) = Some dt \<longrightarrow>
        validate sc = Some (Errorf (''Unsupported data type to sync: '' @ dt @
          ''. Available values: projects'')))
   \<and> (\<forall>dt \<in> set (DataTypesToSync sc). dt \<notin> {''projects''} \<longrightarrow> validate sc \<noteq> None)"
proof -
  have allowed: "set allowedDataTypesToSync = {''projects''}"
    by (simp add: allowedDataTypesToSync_def)
  have msg: "errUnsupported dt = Errorf (''Unsupported data type to sync: '' @ dt @
      ''. Available values: projects'')" for dt
    by (simp add: errUnsupported_def allowedDataTypesToSync_def)
  have iff: "validate sc = None \<longleftrightarrow>
      Contains (NamespaceFormat sc) ''%i'' \<and> reMatchString (testString (NamespaceFormat sc)) \<and>
      set (DataTypesToSync sc) \<subseteq> {''projects''}"
    by (simp add: validate_def Let_def checkDataTypes_None_iff allowed)
  have tag: "validate sc = Some (Errorf (''Unsupported data type to sync: '' @ dt @
          ''. Available values: projects''))"
    if "Contains (NamespaceFormat sc) ''%i''" "reMatchString (testString (NamespaceFormat sc))"
       "find (\<lambda>dt. dt \<notin> {''projects''}) (DataTypesToSync sc) = Some dt" for dt
    using that by (simp add: validate_def Let_def checkDataTypes_find allowed msg)
  have bad: "validate sc \<noteq> None" if "dt \<in> set (DataTypesToSync sc)" "dt \<notin> {''projects''}" for dt
    using that iff by blast
  show ?thesis
    using iff tag bad
    by (simp add: reMatchString_shape validate_def testString_at_once)
qed

theorem validate_characterised_witness:
  "Contains ''%n-%i'' ''%i'' \<and> reMatchString (testString ''%n-%i'') \<and>
   find (\<lambda>dt. dt \<notin> {''projects''}) [''projects'', ''roles''] = Some ''roles'' \<and>
   validate \<lparr>DataTypesToSync = [''projects'', ''roles''], NamespaceFormat = ''%n-%i'',
     ProjectBlackList = []\<rparr> =
     Some (Errorf ''Unsupported data type to sync: roles. Available values: projects'')"
proof -
  have c: "Contains ''%n-%i'' ''%i''" by simp
  have t: "testString ''%n-%i'' = ''aa-aa''" by (simp add: testString_def)
  have r: "reMatchString (testString ''%n-%i'')"
    unfolding t by (simp add: reMatchString_def alnum_def nameChar_def)
  have f: "find (\<lambda>dt. dt \<notin> {''projects''}) [''projects'', ''roles''] = Some ''roles''" by simp
  show ?thesis
    using validate_characterised [of "\<lparr>DataTypesToSync = [''projects'', ''roles''],
      NamespaceFormat = ''%n-%i'', ProjectBlackList = []\<rparr>"] c r f
    by simp
qed

text \<open>
  Claim C1, as amended. formatNamespaceName runs three replace-all passes one after the
  other: \<open>%i\<close> by the id on the template, \<open>%n\<close> by the name on the result, \<open>%d\<close>
  by the domain on that result. When neither the id nor the name contains the character
  \<open>%\<close> and the template does not contain \<open>%%\<close>, this is the substitution at the
  template's own placeholder positions; the domain may be any string, it is never
  substituted again.
\<close>

theorem formatNamespaceName_at_template_positions:
  "formatNamespaceName sc id' name domain =
     (let res = Replace (Replace (Replace (NamespaceFormat sc) ''%i'' id') ''%n'' name)
                  ''%d'' domain in
      if length res > 63 then (id', [lengthWarning res id']) else (res, []))
   \<and> (CHR ''%'' \<notin> set id' \<and> CHR ''%'' \<notin> set name \<and> \<not> Contains (NamespaceFormat sc) ''%%'' \<longrightarrow>
      formatNamespaceName sc id' name domain =
        (let res = substituteAtOnce (NamespaceFormat sc) id' name domain in
         if length res > 63 then (id', [lengthWarning res id']) else (res, [])))"
proof -
  have passes: "formatNamespaceName sc id' name domain =
     (let res = Replace (Replace (Replace (NamespaceFormat sc) ''%i'' id') ''%n'' name)
                  ''%d'' domain in
      if length res > 63 then (id', [lengthWarning res id']) else (res, []))"
    by (simp add: formatNamespaceName_def substituted_def)
  have once: "formatNamespaceName sc id' name domain =
        (let res = substituteAtOnce (NamespaceFormat sc) id' name domain in
         if length res > 63 then (id', [lengthWarning res id']) else (res, []))"
    if "CHR ''%'' \<notin> set id'" "CHR ''%'' \<notin> set name" "\<not> Contains (NamespaceFormat sc) ''%%''"
    using that by (simp add: formatNamespaceName_def substituted_at_once)
  from passes once show ?thesis by blast
qed

theorem formatNamespaceName_at_template_positions_witness:
  "CHR ''%'' \<notin> set ''p1'' \<and> CHR ''%'' \<notin> set ''dev'' \<and> \<not> Contains ''%d-%n-%i-%i'' ''%%'' \<and>
   formatNamespaceName
     \<lparr>DataTypesToSync = [''projects''], NamespaceFormat = ''%d-%n-%i-%i'', ProjectBlackList = []\<rparr>
     ''p1'' ''dev'' ''%i%n'' = (''%i%n-dev-p1-p1'', [])"
proof -
  let ?sc = "\<lparr>DataTypesToSync = [''projects''], NamespaceFormat = ''%d-%n-%i-%i'',
    ProjectBlackList = []\<rparr>"
  have a: "CHR ''%'' \<notin> set ''p1''" "CHR ''%'' \<notin> set ''dev''" by simp_all
  have b: "\<not> Contains (NamespaceFormat ?sc) ''%%''" by simp
  have c: "substituteAtOnce (NamespaceFormat ?sc) ''p1'' ''dev'' ''%i%n'' = ''%i%n-dev-p1-p1''"
    by simp
  from formatNamespaceName_at_template_positions [of ?sc "''p1''" "''dev''" "''%i%n''"] a b
  have "formatNamespaceName ?sc ''p1'' ''dev'' ''%i%n'' =
     (let res = substituteAtOnce (NamespaceFormat ?sc) ''p1'' ''dev'' ''%i%n'' in
      if length res > 63 then (''p1'', [lengthWarning res ''p1'']) else (res, []))"
    by blast
  with a b show ?thesis unfolding c by simp
qed

text \<open>
  The claim as written fails: with the template \<open>%i\<close> and the id \<open>%n\<close>, the
  \<open>%n\<close> that the first pass puts in is replaced by the name in the second pass.
\<close>

theorem formatNamespaceName_resubstitutes:
  "formatNamespaceName 
     \<lparr>DataTypesToSync = [''projects''], NamespaceFormat = ''%i'', ProjectBlackList = []\<rparr>
     ''%n'' ''x'' ''y'' = (''x'', []) \<and>
   substituteAtOnce ''%i'' ''%n'' ''x'' ''y'' = ''%n'' \<and>
   fst (formatNamespaceName 
     \<lparr>DataTypesToSync = [''projects''], NamespaceFormat = ''%i'', ProjectBlackList = []\<rparr>
     ''%n'' ''x'' ''y'') \<noteq> substituteAtOnce ''%i'' ''%n'' ''x'' ''y''"
  by (simp add: formatNamespaceName_def substituted_def)

text \<open>
  Claim C4. When the substituted string is longer than 63 bytes, formatNamespaceName
  returns the id itself and writes one warning (no error is returned: the function has
  no error result); otherwise it returns the substituted string and writes nothing. An
  empty id makes no difference: a substituted string of at most 63 bytes is returned
  as it is.
\<close>

theorem formatNamespaceName_length_fallback:
  "(length (substituted (NamespaceFormat sc) id' name domain) > 63 \<longrightarrow>
      formatNamespaceName sc id' name domain =
        (id', [lengthWarning (substituted (NamespaceFormat sc) id' name domain) id']))
   \<and> (length (substituted (NamespaceFormat sc) id' name domain) \<le> 63 \<longrightarrow>
      formatNamespaceName sc id' name domain =
        (substituted (NamespaceFormat sc) id' name domain, []))
   \<and> (length (substituted (NamespaceFormat sc) [] name domain) \<le> 63 \<longrightarrow>
      formatNamespaceName sc [] name domain =
        (substituted (NamespaceFormat sc) [] name domain, []))"
  by (simp add: formatNamespaceName_def)

theorem formatNamespaceName_length_fallback_witness:
  "length (substituted ''%n.%i'' ''p1''
      ''a-project-name-that-is-far-too-long-for-a-namespace-of-the-cluster'' ''d'') > 63 \<and>
   fst (formatNamespaceName
      \<lparr>DataTypesToSync = [''projects''], NamespaceFormat = ''%n.%i'', ProjectBlackList = []\<rparr>
      ''p1'' ''a-project-name-that-is-far-too-long-for-a-namespace-of-the-cluster'' ''d'') = ''p1'' \<and>
   length (substituted ''ns-%i'' [] ''n'' ''d'') \<le> 63 \<and>
   formatNamespaceName
      \<lparr>DataTypesToSync = [''projects''], NamespaceFormat = ''ns-%i'', ProjectBlackList = []\<rparr>
      [] ''n'' ''d'' = (''ns-'', [])"
proof -
  have long: "substituted ''%n.%i'' ''p1''
      ''a-project-name-that-is-far-too-long-for-a-namespace-of-the-cluster'' ''d'' =
      ''a-project-name-that-is-far-too-long-for-a-namespace-of-the-cluster.p1''"
    by (simp add: substituted_def)
  have short: "substituted ''ns-%i'' [] ''n'' ''d'' = ''ns-''"
    by (simp add: substituted_def)
  show ?thesis
    using formatNamespaceName_length_fallback
        [of "\<lparr>DataTypesToSync = [''projects''], NamespaceFormat = ''%n.%i'', ProjectBlackList = []\<rparr>"
          "''p1''" "''a-project-name-that-is-far-too-long-for-a-namespace-of-the-cluster''" "''d''"]
      formatNamespaceName_length_fallback
        [of "\<lparr>DataTypesToSync = [''projects''], NamespaceFormat = ''ns-%i'', ProjectBlackList = []\<rparr>"
          "[]" "''n''" "''d''"]
    by (simp add: long short)
qed

text \<open>
  Claim C6. newSyncConfig has the namespace format \<open>%i\<close>, all allowed data types
  (that is \<open>projects\<close>) and an empty black list. newSyncConfigFromFile starts from it
  and, when the file was read and parsed, sets the fields the document holds and keeps
  the others: an empty document gives newSyncConfig itself, a document with only
  \<open>namespace_format\<close> changes only the namespace format.
\<close>

theorem newSyncConfigFromFile_defaults:
  "newSyncConfig =
     \<lparr>DataTypesToSync = [''projects''], NamespaceFormat = ''%i'', ProjectBlackList = []\<rparr>
   \<and> DataTypesToSync newSyncConfig = allowedDataTypesToSync
   \<and> (ReadFile e path = (bytes, None) \<and> parseYAML e bytes = (doc, None) \<longrightarrow>
        newSyncConfigFromFile e path =
          ((Some \<lparr>DataTypesToSync =
                    (case data_types_to_sync doc of None \<Rightarrow> [''projects''] | Some v \<Rightarrow> v),
                  NamespaceFormat = (case namespace_format doc of None \<Rightarrow> ''%i'' | Some v \<Rightarrow> v),
                  ProjectBlackList = (case projects_black_list doc of None \<Rightarrow> [] | Some v \<Rightarrow> v)\<rparr>,
            None), []))
   \<and> (ReadFile e path = (bytes, None) \<and>
        parseYAML e bytes = (\<lparr>data_types_to_sync = None, namespace_format = None,
          projects_black_list = None\<rparr>, None) \<longrightarrow>
        fst (newSyncConfigFromFile e path) = (Some newSyncConfig, None))
   \<and> (ReadFile e path = (bytes, None) \<and>
        parseYAML e bytes = (\<lparr>data_types_to_sync = None, namespace_format = Some f,
          projects_black_list = None\<rparr>, None) \<longrightarrow>
        fst (newSyncConfigFromFile e path) =
          (Some \<lparr>DataTypesToSync = [''projects''], NamespaceFormat = f, ProjectBlackList = []\<rparr>,
           None))"
  by (simp add: newSyncConfigFromFile_def newSyncConfig_def allowedDataTypesToSync_def
      Unmarshal_def overlay_def Let_def split: option.splits)

theorem newSyncConfigFromFile_defaults_witness:
  "fst (newSyncConfigFromFile
      \<lparr>ReadFile = (\<lambda>p. ([], None)),
       parseYAML = (\<lambda>b. (\<lparr>data_types_to_sync = None, namespace_format = None,
          projects_black_list = None\<rparr>, None))\<rparr> ''sync.yaml'') =
     (Some newSyncConfig, None)
   \<and> fst (newSyncConfigFromFile
      \<lparr>ReadFile = (\<lambda>p. (''namespace_format: ns-%i'', None)),
       parseYAML = (\<lambda>b. (\<lparr>data_types_to_sync = None, namespace_format = Some ''ns-%i'',
          projects_black_list = None\<rparr>, None))\<rparr> ''sync.yaml'') =
     (Some \<lparr>DataTypesToSync = [''projects''], NamespaceFormat = ''ns-%i'', ProjectBlackList = []\<rparr>,
      None)"
  using newSyncConfigFromFile_defaults
      [of "\<lparr>ReadFile = (\<lambda>p. ([], None)),
       parseYAML = (\<lambda>b. (\<lparr>data_types_to_sync = None, namespace_format = None,
          projects_black_list = None\<rparr>, None))\<rparr>" "''sync.yaml''" "[]"]
    newSyncConfigFromFile_defaults
      [of "\<lparr>ReadFile = (\<lambda>p. (''namespace_format: ns-%i'', None)),
       parseYAML = (\<lambda>b. (\<lparr>data_types_to_sync = None, namespace_format = Some ''ns-%i'',
          projects_black_list = None\<rparr>, None))\<rparr>" "''sync.yaml''" "''namespace_format: ns-%i''"
          _ "''ns-%i''"]
  by simp

section \<open>Export locations\<close>

lemma nat_int_Suc: "nat (int k + 1) = Suc k"
  by simp

lemma splitExportLocation_at:
  "LastIndexByte (Path loc) (CHR '':'') = int (length a) \<Longrightarrow> Path loc = a @ CHR '':'' # l \<Longrightarrow>
   splitExportLocation loc =
     (if a = [] then ([], [], Some (errParseLocation (Path loc))) else (a, l, None))"
  by (simp add: splitExportLocation_def nat_int_Suc del: of_nat_Suc)

lemma splitExportLocation_split:
  assumes "Path loc = a @ CHR '':'' # l" "a \<noteq> []" "CHR '':'' \<notin> set l"
  shows "splitExportLocation loc = (a, l, None)"
  using assms splitExportLocation_at [of loc a l] by (simp add: LastIndexByte_last)

lemma splitExportLocation_cases:
  "(CHR '':'' \<notin> set (Path loc) \<and> splitExportLocation loc = ([], [], Some (errParseLocation (Path loc))))
   \<or> (\<exists>l. Path loc = CHR '':'' # l \<and> CHR '':'' \<notin> set l \<and>
         splitExportLocation loc = ([], [], Some (errParseLocation (Path loc))))
   \<or> (\<exists>a l. Path loc = a @ CHR '':'' # l \<and> a \<noteq> [] \<and> CHR '':'' \<notin> set l \<and>
         splitExportLocation loc = (a, l, None))"
proof (cases "LastIndexByte (Path loc) (CHR '':'') = -1")
  case True
  then show ?thesis by (simp add: splitExportLocation_def LastIndexByte_none [symmetric])
next
  case False
  from LastIndexByte_found [OF this] obtain a l where
    e: "Path loc = a @ CHR '':'' # l" "CHR '':'' \<notin> set l"
       "LastIndexByte (Path loc) (CHR '':'') = int (length a)" by blast
  from splitExportLocation_at [OF e(3) e(1)] e(1,2) show ?thesis
    by (cases "a = []") auto
qed

text \<open>
  Claim C5. splitExportLocation splits the path at its last \<open>:\<close>: the address is
  what stands before it, the location what stands after it. It fails with the parse
  error exactly when the position of the last colon is not greater than 0, that is when
  the path has no colon or its only colon is its first character.
\<close>

theorem splitExportLocation_last_colon:
  "(snd (snd (splitExportLocation loc)) \<noteq> None \<longleftrightarrow>
      CHR '':'' \<notin> set (Path loc) \<or> (\<exists>l. Path loc = CHR '':'' # l \<and> CHR '':'' \<notin> set l))
   \<and> (snd (snd (splitExportLocation loc)) \<noteq> None \<longleftrightarrow> LastIndexByte (Path loc) (CHR '':'') \<le> 0)
   \<and> (snd (snd (splitExportLocation loc)) \<noteq> None \<longrightarrow>
        splitExportLocation loc = ([], [], Some (errParseLocation (Path loc))))
   \<and> (\<forall>a l. Path loc = a @ CHR '':'' # l \<and> CHR '':'' \<notin> set l \<and> a \<noteq> [] \<longrightarrow>
        splitExportLocation loc = (a, l, None))
   \<and> (snd (snd (splitExportLocation loc)) = None \<longrightarrow>
        (\<exists>a l. Path loc = a @ CHR '':'' # l \<and> CHR '':'' \<notin> set l \<and>
           splitExportLocation loc = (a, l, None)))
   \<and> splitExportLocation \<lparr>Path = ''10.0.0.1:2049,10.0.0.2:2049:/vol/share1''\<rparr> =
        (''10.0.0.1:2049,10.0.0.2:2049'', ''/vol/share1'', None)"
proof -
  have pos: "snd (snd (splitExportLocation loc)) \<noteq> None \<longleftrightarrow> LastIndexByte (Path loc) (CHR '':'') \<le> 0"
    by (simp add: splitExportLocation_def Let_def)
  have err: "splitExportLocation loc = ([], [], Some (errParseLocation (Path loc)))"
    if "snd (snd (splitExportLocation loc)) \<noteq> None"
    using that by (simp add: splitExportLocation_def Let_def split: if_splits)
  have split: "splitExportLocation loc = (a, l, None)"
    if "Path loc = a @ CHR '':'' # l" "CHR '':'' \<notin> set l" "a \<noteq> []" for a l
    using that by (simp add: splitExportLocation_split)
  have iff: "snd (snd (splitExportLocation loc)) \<noteq> None \<longleftrightarrow>
      CHR '':'' \<notin> set (Path loc) \<or> (\<exists>l. Path loc = CHR '':'' # l \<and> CHR '':'' \<notin> set l)"
    using pos LastIndexByte_le0 [of "Path loc" "CHR '':''"] by simp
  have ok: "\<exists>a l. Path loc = a @ CHR '':'' # l \<and> CHR '':'' \<notin> set l \<and>
      splitExportLocation loc = (a, l, None)"
    if "snd (snd (splitExportLocation loc)) = None"
    using that splitExportLocation_cases [of loc] by auto
  have ex: "splitExportLocation \<lparr>Path = ''10.0.0.1:2049,10.0.0.2:2049:/vol/share1''\<rparr> =
        (''10.0.0.1:2049,10.0.0.2:2049'', ''/vol/share1'', None)"
    by (rule splitExportLocation_split) simp_all
  from pos err split iff ok ex show ?thesis by blast
qed

theorem splitExportLocation_last_colon_witness:
  "snd (snd (splitExportLocation \<lparr>Path = ''no-colon-here''\<rparr>)) \<noteq> None \<and>
   splitExportLocation \<lparr>Path = ''no-colon-here''\<rparr> =
     ([], [], Some (errParseLocation ''no-colon-here'')) \<and>
   splitExportLocation \<lparr>Path = '':/vol''\<rparr> = ([], [], Some (errParseLocation '':/vol'')) \<and>
   Path \<lparr>Path = ''[fd00::1]:6789:/vol''\<rparr> = ''[fd00::1]:6789'' @ CHR '':'' # ''/vol'' \<and>
   CHR '':'' \<notin> set ''/vol'' \<and> ''[fd00::1]:6789'' \<noteq> [] \<and>
   splitExportLocation \<lparr>Path = ''[fd00::1]:6789:/vol''\<rparr> = (''[fd00::1]:6789'', ''/vol'', None)"
proof -
  have a: "CHR '':'' \<notin> set (Path \<lparr>Path = ''no-colon-here''\<rparr>)" by simp
  have b: "\<exists>l. Path \<lparr>Path = '':/vol''\<rparr> = CHR '':'' # l \<and> CHR '':'' \<notin> set l" by simp
  have c: "Path \<lparr>Path = ''[fd00::1]:6789:/vol''\<rparr> = ''[fd00::1]:6789'' @ CHR '':'' # ''/vol'' \<and>
     CHR '':'' \<notin> set ''/vol'' \<and> ''[fd00::1]:6789'' \<noteq> []" by simp
  from a splitExportLocation_last_colon [of "\<lparr>Path = ''no-colon-here''\<rparr>"]
  have 1: "snd (snd (splitExportLocation \<lparr>Path = ''no-colon-here''\<rparr>)) \<noteq> None \<and>
     splitExportLocation \<lparr>Path = ''no-colon-here''\<rparr> =
     ([], [], Some (errParseLocation ''no-colon-here''))"
    by simp
  from b splitExportLocation_last_colon [of "\<lparr>Path = '':/vol''\<rparr>"]
  have 2: "splitExportLocation \<lparr>Path = '':/vol''\<rparr> = ([], [], Some (errParseLocation '':/vol''))"
    by simp
  from c splitExportLocation_last_colon [of "\<lparr>Path = ''[fd00::1]:6789:/vol''\<rparr>"]
  have 3: "splitExportLocation \<lparr>Path = ''[fd00::1]:6789:/vol''\<rparr> =
     (''[fd00::1]:6789'', ''/vol'', None)"
    by blast
  from 1 2 3 c show ?thesis by simp
qed

text \<open>
  Claim C9. When splitExportLocation succeeds, the address is not empty, the location
  has no \<open>:\<close>, and address, \<open>:\<close> and location together are the path again.
\<close>

theorem splitExportLocation_roundtrip:
  assumes "splitExportLocation loc = (address, location, None)"
  shows "address \<noteq> [] \<and> CHR '':'' \<notin> set location \<and> address @ '':'' @ location = Path loc"
  using assms splitExportLocation_cases [of loc] by auto

theorem splitExportLocation_roundtrip_witness:
  "splitExportLocation \<lparr>Path = ''10.0.0.1:2049,10.0.0.2:2049:/vol/share1''\<rparr> =
     (''10.0.0.1:2049,10.0.0.2:2049'', ''/vol/share1'', None) \<and>
   ''10.0.0.1:2049,10.0.0.2:2049'' \<noteq> [] \<and> CHR '':'' \<notin> set ''/vol/share1'' \<and>
   ''10.0.0.1:2049,10.0.0.2:2049'' @ '':'' @ ''/vol/share1'' =
     Path \<lparr>Path = ''10.0.0.1:2049,10.0.0.2:2049:/vol/share1''\<rparr>"
proof -
  have s: "splitExportLocation \<lparr>Path = ''10.0.0.1:2049,10.0.0.2:2049:/vol/share1''\<rparr> =
     (''10.0.0.1:2049,10.0.0.2:2049'', ''/vol/share1'', None)"
    by (rule splitExportLocation_split) simp_all
  from splitExportLocation_roundtrip [OF s] s show ?thesis by simp
qed

section \<open>Secrets\<close>

text \<open>
  Claim C8. The secret's name is \<open>manila-\<close> followed by the share id, so two share
  ids give the same name only when they are equal. createSecret hands the secret with
  the given name and data to the cluster client and returns the client's error,
  whichever it is (nil exactly when the client's is nil); deleteSecret returns what the
  client's delete returns. Neither looks at the error, so already-exists and not-found
  come back as the client gave them.
\<close>

theorem secret_binding:
  "getSecretName shareID = ''manila-'' @ shareID
   \<and> (getSecretName shareID = getSecretName shareID' \<longleftrightarrow> shareID = shareID')
   \<and> fst (createSecret name namespace cs data' st) =
       snd (fst (SecretsCreate cs namespace \<lparr>Name = name, Data = data'\<rparr> st))
   \<and> snd (createSecret name namespace cs data' st) =
       snd (SecretsCreate cs namespace \<lparr>Name = name, Data = data'\<rparr> st)
   \<and> (fst (createSecret (getSecretName shareID) namespace cs data' st) = None \<longleftrightarrow>
       snd (fst (SecretsCreate cs namespace \<lparr>Name = ''manila-'' @ shareID, Data = data'\<rparr> st)) = None)
   \<and> deleteSecret name namespace cs st = SecretsDelete cs namespace name st
   \<and> deleteSecret (getSecretName shareID) namespace cs st =
       SecretsDelete cs namespace (''manila-'' @ shareID) st"
proof -
  have create: "fst (createSecret n namespace cs data' st) =
       snd (fst (SecretsCreate cs namespace \<lparr>Name = n, Data = data'\<rparr> st))" for n
    by (simp add: createSecret_def split: prod.splits option.splits)
  have state: "snd (createSecret name namespace cs data' st) =
       snd (SecretsCreate cs namespace \<lparr>Name = name, Data = data'\<rparr> st)"
    by (simp add: createSecret_def split: prod.splits option.splits)
  show ?thesis
    by (simp add: create state getSecretName_def deleteSecret_def)
qed

section \<open>Granting access\<close>

lemma poll_notYetReady:
  "notYetReady (listAnswer b (listCalls b) sid) \<Longrightarrow>
   pollAccessRight sid (b, ar) = ((False, None), (b\<lparr>listCalls := Suc (listCalls b)\<rparr>, ar))"
  by (auto simp: pollAccessRight.simps notYetReady_def ListAccessRights_def split: prod.splits option.splits list.splits)

lemma poll_error:
  "snd (listAnswer b (listCalls b) sid) = Some e \<Longrightarrow>
   pollAccessRight sid (b, ar) = ((False, Some e), (b\<lparr>listCalls := Suc (listCalls b)\<rparr>, ar))"
  by (auto simp: pollAccessRight.simps ListAccessRights_def split: prod.splits option.splits)

lemma poll_many:
  "listAnswer b (listCalls b) sid = (rs, None) \<Longrightarrow> length rs > 1 \<Longrightarrow>
   pollAccessRight sid (b, ar) =
     ((False, Some (errAccessRules (length rs))), (b\<lparr>listCalls := Suc (listCalls b)\<rparr>, ar))"
  by (auto simp: pollAccessRight.simps ListAccessRights_def split: prod.splits option.splits)

lemma poll_ready:
  "listAnswer b (listCalls b) sid = ([r], None) \<Longrightarrow> AccessKey r \<noteq> [] \<Longrightarrow>
   pollAccessRight sid (b, ar) = ((True, None), (b\<lparr>listCalls := Suc (listCalls b)\<rparr>, r))"
  by (auto simp: pollAccessRight.simps ListAccessRights_def split: prod.splits option.splits)

lemma WaitFor_skip:
  "\<forall>j<k. notYetReady (listAnswer b (listCalls b + j) sid) \<Longrightarrow>
   WaitFor (k + m) (pollAccessRight sid) (b, ar) =
     WaitFor m (pollAccessRight sid) (b\<lparr>listCalls := listCalls b + k\<rparr>, ar)"
proof (induction k arbitrary: b)
  case 0
  then show ?case by simp
next
  case (Suc k)
  let ?b = "b\<lparr>listCalls := Suc (listCalls b)\<rparr>"
  from Suc.prems have "notYetReady (listAnswer b (listCalls b + 0) sid)" by blast
  then have first: "notYetReady (listAnswer b (listCalls b) sid)" by simp
  have rest: "\<forall>j<k. notYetReady (listAnswer ?b (listCalls ?b + j) sid)"
  proof (intro allI impI)
    fix j assume "j < k"
    then have "Suc j < Suc k" by simp
    with Suc.prems have "notYetReady (listAnswer b (listCalls b + Suc j) sid)" by blast
    then show "notYetReady (listAnswer ?b (listCalls ?b + j) sid)" by simp
  qed
  have "WaitFor (Suc k + m) (pollAccessRight sid) (b, ar) =
      WaitFor (k + m) (pollAccessRight sid) (?b, ar)"
    by (simp add: poll_notYetReady [OF first])
  also have "\<dots> = WaitFor m (pollAccessRight sid) (?b\<lparr>listCalls := listCalls ?b + k\<rparr>, ar)"
    by (rule Suc.IH [OF rest])
  finally show ?case by simp
qed

lemma WaitFor_error_keeps:
  "WaitFor n (pollAccessRight sid) (b, ar) = (Some e, (b', ar')) \<Longrightarrow> ar' = ar"
proof (induction n arbitrary: b)
  case 0
  then show ?case by simp
next
  case (Suc n)
  then show ?case
    by (auto simp: pollAccessRight.simps ListAccessRights_def split: prod.splits option.splits if_splits bool.splits)
qed

lemma WaitFor_timeout:
  "\<forall>j<n. notYetReady (listAnswer b (listCalls b + j) sid) \<Longrightarrow>
   WaitFor n (pollAccessRight sid) (b, ar) = (Some ErrTimeout, (b\<lparr>listCalls := listCalls b + n\<rparr>, ar))"
  using WaitFor_skip [of n b sid 0 ar] by simp

lemma WaitFor_next:
  assumes "\<forall>j<k. notYetReady (listAnswer b (listCalls b + j) sid)" and "k < n"
  shows "WaitFor n (pollAccessRight sid) (b, ar) =
     WaitFor (Suc (n - Suc k)) (pollAccessRight sid) (b\<lparr>listCalls := listCalls b + k\<rparr>, ar)"
proof -
  from \<open>k < n\<close> have "n = k + Suc (n - Suc k)" by simp
  then show ?thesis using WaitFor_skip [OF assms(1), of "Suc (n - Suc k)" ar] by simp
qed

lemma WaitFor_error:
  assumes "\<forall>j<k. notYetReady (listAnswer b (listCalls b + j) sid)" and "k < n"
    and "snd (listAnswer b (listCalls b + k) sid) = Some e"
  shows "WaitFor n (pollAccessRight sid) (b, ar) =
     (Some e, (b\<lparr>listCalls := listCalls b + Suc k\<rparr>, ar))"
proof -
  let ?b = "b\<lparr>listCalls := listCalls b + k\<rparr>"
  from assms(3) have "snd (listAnswer ?b (listCalls ?b) sid) = Some e" by simp
  from poll_error [OF this] show ?thesis
    by (simp add: WaitFor_next [OF assms(1,2)])
qed

lemma WaitFor_many:
  assumes "\<forall>j<k. notYetReady (listAnswer b (listCalls b + j) sid)" and "k < n"
    and "listAnswer b (listCalls b + k) sid = (rs, None)" and "length rs > 1"
  shows "WaitFor n (pollAccessRight sid) (b, ar) =
     (Some (errAccessRules (length rs)), (b\<lparr>listCalls := listCalls b + Suc k\<rparr>, ar))"
proof -
  let ?b = "b\<lparr>listCalls := listCalls b + k\<rparr>"
  from assms(3) have "listAnswer ?b (listCalls ?b) sid = (rs, None)" by simp
  from poll_many [OF this assms(4)] show ?thesis
    by (simp add: WaitFor_next [OF assms(1,2)])
qed

lemma WaitFor_ready:
  assumes "\<forall>j<k. notYetReady (listAnswer b (listCalls b + j) sid)" and "k < n"
    and "listAnswer b (listCalls b + k) sid = ([r], None)" and "AccessKey r \<noteq> []"
  shows "WaitFor n (pollAccessRight sid) (b, ar) =
     (None, (b\<lparr>listCalls := listCalls b + Suc k\<rparr>, r))"
proof -
  let ?b = "b\<lparr>listCalls := listCalls b + k\<rparr>"
  from assms(3) have "listAnswer ?b (listCalls ?b) sid = ([r], None)" by simp
  from poll_ready [OF this assms(4)] show ?thesis
    by (simp add: WaitFor_next [OF assms(1,2)])
qed

lemma grantAccessCephx_refused:
  "grantAnswer b (grantCalls b) (Share_ID (Share args)) (accessOpts args) = Some e \<Longrightarrow>
   grantAccessCephx args b = ((None, Some e), b\<lparr>grantCalls := Suc (grantCalls b)\<rparr>)"
  by (simp add: grantAccessCephx_def GrantAccess_def accessOpts_def)

lemma grantAccessCephx_granted:
  "grantAnswer b (grantCalls b) (Share_ID (Share args)) (accessOpts args) = None \<Longrightarrow>
   grantAccessCephx args b =
     (case WaitFor 120 (pollAccessRight (Share_ID (Share args)))
        (b\<lparr>grantCalls := Suc (grantCalls b)\<rparr>, zeroAccessRight) of
        (err, (b'', accessRight)) \<Rightarrow> ((Some accessRight, err), b''))"
  by (simp add: grantAccessCephx_def GrantAccess_def accessOpts_def)

text \<open>
  Claim C2. After a grant that succeeded, let the first \<open>k\<close> answers to
  list-access-rights be not yet ready (no record, or one record with an empty key):
  polling goes on through all of them. If the next answer, within the budget of 120,
  is an error, the wait ends with that error; if it holds more than one record, the
  wait ends at once with the error on the number of access rules; if it holds one
  record with a key, the wait ends and that record is returned. In each case exactly
  \<open>k + 1\<close> list calls were made. If all 120 answers of the budget are not yet ready,
  the timeout error is returned, which is neither the error on the number of access
  rules nor an error of the backend.
\<close>

theorem grantAccessCephx_await_credential:
  assumes granted: "grantAnswer b (grantCalls b) (Share_ID (Share args)) (accessOpts args) = None"
    and quiet: "\<forall>j<k. notYetReady (listAnswer b (listCalls b + j) (Share_ID (Share args)))"
  shows
    "(k < 120 \<and> snd (listAnswer b (listCalls b + k) (Share_ID (Share args))) = Some e \<longrightarrow>
        grantAccessCephx args b = ((Some zeroAccessRight, Some e),
          b\<lparr>grantCalls := Suc (grantCalls b), listCalls := listCalls b + Suc k\<rparr>))
     \<and> (k < 120 \<and> listAnswer b (listCalls b + k) (Share_ID (Share args)) = (rs, None) \<and>
          length rs > 1 \<longrightarrow>
        grantAccessCephx args b = ((Some zeroAccessRight, Some (errAccessRules (length rs))),
          b\<lparr>grantCalls := Suc (grantCalls b), listCalls := listCalls b + Suc k\<rparr>))
     \<and> (k < 120 \<and> listAnswer b (listCalls b + k) (Share_ID (Share args)) = ([r], None) \<and>
          AccessKey r \<noteq> [] \<longrightarrow>
        grantAccessCephx args b = ((Some r, None),
          b\<lparr>grantCalls := Suc (grantCalls b), listCalls := listCalls b + Suc k\<rparr>))
     \<and> (k = 120 \<longrightarrow>
        grantAccessCephx args b = ((Some zeroAccessRight, Some ErrTimeout),
          b\<lparr>grantCalls := Suc (grantCalls b), listCalls := listCalls b + 120\<rparr>))
     \<and> ErrTimeout \<noteq> errAccessRules n \<and> ErrTimeout \<noteq> External m"
proof -
  let ?sid = "Share_ID (Share args)"
  let ?b = "b\<lparr>grantCalls := Suc (grantCalls b)\<rparr>"
  from quiet have q: "\<forall>j<k. notYetReady (listAnswer ?b (listCalls ?b + j) ?sid)" by simp
  have 1: "grantAccessCephx args b = ((Some zeroAccessRight, Some e),
      b\<lparr>grantCalls := Suc (grantCalls b), listCalls := listCalls b + Suc k\<rparr>)"
    if "k < 120" "snd (listAnswer b (listCalls b + k) ?sid) = Some e"
  proof -
    from that(2) have "snd (listAnswer ?b (listCalls ?b + k) ?sid) = Some e" by simp
    from WaitFor_error [OF q that(1) this] show ?thesis
      by (simp add: grantAccessCephx_granted [OF granted])
  qed
  have 2: "grantAccessCephx args b = ((Some zeroAccessRight, Some (errAccessRules (length rs))),
      b\<lparr>grantCalls := Suc (grantCalls b), listCalls := listCalls b + Suc k\<rparr>)"
    if "k < 120" "listAnswer b (listCalls b + k) ?sid = (rs, None)" "length rs > 1"
  proof -
    from that(2) have "listAnswer ?b (listCalls ?b + k) ?sid = (rs, None)" by simp
    from WaitFor_many [OF q that(1) this that(3)] show ?thesis
      by (simp add: grantAccessCephx_granted [OF granted])
  qed
  have 3: "grantAccessCephx args b = ((Some r, None),
      b\<lparr>grantCalls := Suc (grantCalls b), listCalls := listCalls b + Suc k\<rparr>)"
    if "k < 120" "listAnswer b (listCalls b + k) ?sid = ([r], None)" "AccessKey r \<noteq> []"
  proof -
    from that(2) have "listAnswer ?b (listCalls ?b + k) ?sid = ([r], None)" by simp
    from WaitFor_ready [OF q that(1) this that(3)] show ?thesis
      by (simp add: grantAccessCephx_granted [OF granted])
  qed
  have 4: "grantAccessCephx args b = ((Some zeroAccessRight, Some ErrTimeout),
      b\<lparr>grantCalls := Suc (grantCalls b), listCalls := listCalls b + 120\<rparr>)"
    if "k = 120"
  proof -
    from q that have "\<forall>j<120. notYetReady (listAnswer ?b (listCalls ?b + j) ?sid)" by simp
    from WaitFor_timeout [OF this] show ?thesis
      by (simp add: grantAccessCephx_granted [OF granted])
  qed
  have 5: "ErrTimeout \<noteq> errAccessRules n" "ErrTimeout \<noteq> External m"
    by (simp_all add: errAccessRules_def)
  from 1 2 3 4 5 show ?thesis by blast
qed

theorem grantAccessCephx_await_credential_witness:
  "grantAccessCephx exampleArgs
      (scriptedBackend None (\<lambda>k. if k = 0 then ([], None)
         else if k = 1 then ([pendingRight], None) else ([readyRight], None))) =
     ((Some readyRight, None),
      scriptedBackend None (\<lambda>k. if k = 0 then ([], None)
         else if k = 1 then ([pendingRight], None) else ([readyRight], None))
        \<lparr>grantCalls := 1, listCalls := 3\<rparr>)
   \<and> grantAccessCephx exampleArgs (scriptedBackend None (\<lambda>k. ([pendingRight, readyRight], None))) =
     ((Some zeroAccessRight,
       Some (Errorf ''unexpected number of access rules: got 2, expected 1'')),
      scriptedBackend None (\<lambda>k. ([pendingRight, readyRight], None))
        \<lparr>grantCalls := 1, listCalls := 1\<rparr>)
   \<and> grantAccessCephx exampleArgs (scriptedBackend None (\<lambda>k. ([pendingRight], None))) =
     ((Some zeroAccessRight, Some ErrTimeout),
      scriptedBackend None (\<lambda>k. ([pendingRight], None)) \<lparr>grantCalls := 1, listCalls := 120\<rparr>)"
proof -
  let ?s1 = "\<lambda>k::nat. if k = 0 then ([], None)
         else if k = 1 then ([pendingRight], None) else ([readyRight], None)"
  let ?s2 = "\<lambda>k::nat. ([pendingRight, readyRight], None :: error option)"
  let ?s3 = "\<lambda>k::nat. ([pendingRight], None :: error option)"
  have g: "grantAnswer (scriptedBackend None l) (grantCalls (scriptedBackend None l))
      (Share_ID (Share exampleArgs)) (accessOpts exampleArgs) = None" for l
    by (simp add: scriptedBackend_def)
  have q1: "\<forall>j<2. notYetReady (listAnswer (scriptedBackend None ?s1)
      (listCalls (scriptedBackend None ?s1) + j) (Share_ID (Share exampleArgs)))"
    by (simp add: scriptedBackend_def notYetReady_def pendingRight_def less_2_cases_iff)
  have q2: "\<forall>j<0. notYetReady (listAnswer (scriptedBackend None ?s2)
      (listCalls (scriptedBackend None ?s2) + j) (Share_ID (Share exampleArgs)))"
    by simp
  have q3: "\<forall>j<120. notYetReady (listAnswer (scriptedBackend None ?s3)
      (listCalls (scriptedBackend None ?s3) + j) (Share_ID (Share exampleArgs)))"
    by (simp add: scriptedBackend_def notYetReady_def pendingRight_def)
  have two: "errAccessRules 2 = Errorf ''unexpected number of access rules: got 2, expected 1''"
    by (simp add: errAccessRules_def showNat.simps digitChar_def)
  have a: "grantAccessCephx exampleArgs (scriptedBackend None ?s1) =
     ((Some readyRight, None), scriptedBackend None ?s1 \<lparr>grantCalls := 1, listCalls := 3\<rparr>)"
    using grantAccessCephx_await_credential [OF g q1, where r = readyRight]
    by (simp add: scriptedBackend_def readyRight_def)
  have b: "grantAccessCephx exampleArgs (scriptedBackend None ?s2) =
     ((Some zeroAccessRight, Some (errAccessRules 2)),
      scriptedBackend None ?s2 \<lparr>grantCalls := 1, listCalls := 1\<rparr>)"
    using grantAccessCephx_await_credential [OF g q2, where rs = "[pendingRight, readyRight]"]
    by (simp add: scriptedBackend_def numeral_2_eq_2)
  have c: "grantAccessCephx exampleArgs (scriptedBackend None ?s3) =
     ((Some zeroAccessRight, Some ErrTimeout),
      scriptedBackend None ?s3 \<lparr>grantCalls := 1, listCalls := 120\<rparr>)"
    using grantAccessCephx_await_credential [OF g q3]
    by (simp add: scriptedBackend_def)
  from a b c show ?thesis by (simp add: two)
qed

text \<open>
  Claim C7. When the grant-access call fails, grantAccessCephx returns a nil pointer and
  that error; the grant was called once and list-access-rights not at all.
\<close>

theorem grantAccessCephx_grant_failure:
  assumes "grantAnswer b (grantCalls b) (Share_ID (Share args)) (accessOpts args) = Some e"
  shows "grantAccessCephx args b = ((None, Some e), b\<lparr>grantCalls := Suc (grantCalls b)\<rparr>)
     \<and> grantCalls (snd (grantAccessCephx args b)) = Suc (grantCalls b)
     \<and> listCalls (snd (grantAccessCephx args b)) = listCalls b"
  using assms by (simp add: grantAccessCephx_refused)

theorem grantAccessCephx_grant_failure_witness:
  "grantAccessCephx exampleArgs
      (scriptedBackend (Some (External ''403 Forbidden'')) (\<lambda>k. ([readyRight], None))) =
     ((None, Some (External ''403 Forbidden'')),
      scriptedBackend (Some (External ''403 Forbidden'')) (\<lambda>k. ([readyRight], None))
        \<lparr>grantCalls := 1\<rparr>)
   \<and> listCalls (snd (grantAccessCephx exampleArgs
      (scriptedBackend (Some (External ''403 Forbidden'')) (\<lambda>k. ([readyRight], None))))) = 0"
proof -
  let ?b = "scriptedBackend (Some (External ''403 Forbidden'')) (\<lambda>k. ([readyRight], None))"
  have g: "grantAnswer ?b (grantCalls ?b) (Share_ID (Share exampleArgs)) (accessOpts exampleArgs) =
      Some (External ''403 Forbidden'')"
    by (simp add: scriptedBackend_def)
  from grantAccessCephx_grant_failure [OF g] show ?thesis
    by (simp add: scriptedBackend_def)
qed

text \<open>
  Claim C10. When the grant succeeded, the pointer returned is never nil; if the wait
  then ended in an error, it points to the zero access right, all of whose fields are
  empty. When the grant failed, the pointer is nil. So only the error tells failure.
\<close>

theorem grantAccessCephx_error_pointer:
  "(grantAnswer b (grantCalls b) (Share_ID (Share args)) (accessOpts args) = None \<longrightarrow>
      fst (fst (grantAccessCephx args b)) \<noteq> None)
   \<and> (grantAnswer b (grantCalls b) (Share_ID (Share args)) (accessOpts args) = None \<and>
      snd (fst (grantAccessCephx args b)) \<noteq> None \<longrightarrow>
      fst (fst (grantAccessCephx args b)) = Some zeroAccessRight)
   \<and> (grantAnswer b (grantCalls b) (Share_ID (Share args)) (accessOpts args) \<noteq> None \<longrightarrow>
      fst (fst (grantAccessCephx args b)) = None \<and> snd (fst (grantAccessCephx args b)) \<noteq> None)
   \<and> zeroAccessRight = \<lparr>ShareID = [], AccessType = [], AccessTo = [], AccessKey = [],
        AccessLevel = [], State = [], ID = []\<rparr>"
proof -
  let ?g = "grantAnswer b (grantCalls b) (Share_ID (Share args)) (accessOpts args)"
  let ?w = "WaitFor 120 (pollAccessRight (Share_ID (Share args)))
        (b\<lparr>grantCalls := Suc (grantCalls b)\<rparr>, zeroAccessRight)"
  have 1: "fst (fst (grantAccessCephx args b)) \<noteq> None" if "?g = None"
    by (simp add: grantAccessCephx_granted [OF that] split: prod.splits)
  have 2: "fst (fst (grantAccessCephx args b)) = Some zeroAccessRight"
    if g: "?g = None" and e: "snd (fst (grantAccessCephx args b)) \<noteq> None"
  proof -
    obtain err b' ar where w: "?w = (err, (b', ar))" by (metis surj_pair)
    with e have "err \<noteq> None" by (simp add: grantAccessCephx_granted [OF g])
    then obtain x where "err = Some x" by blast
    with w have "ar = zeroAccessRight" using WaitFor_error_keeps by blast
    with w show ?thesis by (simp add: grantAccessCephx_granted [OF g])
  qed
  have 3: "fst (fst (grantAccessCephx args b)) = None \<and> snd (fst (grantAccessCephx args b)) \<noteq> None"
    if "?g \<noteq> None"
  proof -
    from that obtain e where "?g = Some e" by blast
    from grantAccessCephx_refused [OF this] show ?thesis by simp
  qed
  from 1 2 3 show ?thesis by (simp add: zeroAccessRight_def)
qed

theorem grantAccessCephx_error_pointer_witness:
  "fst (grantAccessCephx exampleArgs
      (scriptedBackend None (\<lambda>k. ([], Some (External ''503 Service Unavailable''))))) =
     (Some zeroAccessRight, Some (External ''503 Service Unavailable''))
   \<and> fst (grantAccessCephx exampleArgs
      (scriptedBackend (Some (External ''403 Forbidden'')) (\<lambda>k. ([], None)))) =
     (None, Some (External ''403 Forbidden''))"
proof -
  let ?b1 = "scriptedBackend None (\<lambda>k. ([], Some (External ''503 Service Unavailable'')))"
  let ?b2 = "scriptedBackend (Some (External ''403 Forbidden'')) (\<lambda>k. ([], None))"
  have g1: "grantAnswer ?b1 (grantCalls ?b1) (Share_ID (Share exampleArgs)) (accessOpts exampleArgs) = None"
    by (simp add: scriptedBackend_def)
  have g2: "grantAnswer ?b2 (grantCalls ?b2) (Share_ID (Share exampleArgs)) (accessOpts exampleArgs) =
      Some (External ''403 Forbidden'')"
    by (simp add: scriptedBackend_def)
  have w: "WaitFor 120 (pollAccessRight (Share_ID (Share exampleArgs)))
      (?b1\<lparr>grantCalls := Suc (grantCalls ?b1)\<rparr>, zeroAccessRight) =
      (Some (External ''503 Service Unavailable''),
       (?b1\<lparr>grantCalls := Suc (grantCalls ?b1),
             listCalls := listCalls (?b1\<lparr>grantCalls := Suc (grantCalls ?b1)\<rparr>) + Suc 0\<rparr>,
        zeroAccessRight))"
    using WaitFor_error [of 0 "?b1\<lparr>grantCalls := Suc (grantCalls ?b1)\<rparr>" "Share_ID (Share exampleArgs)"
        120 "External ''503 Service Unavailable''" zeroAccessRight]
    by (simp add: scriptedBackend_def)
  have e1: "snd (fst (grantAccessCephx exampleArgs ?b1)) = Some (External ''503 Service Unavailable'')"
    by (simp add: grantAccessCephx_granted [OF g1] w)
  have r2: "grantAccessCephx exampleArgs ?b2 =
      ((None, Some (External ''403 Forbidden'')), ?b2\<lparr>grantCalls := Suc (grantCalls ?b2)\<rparr>)"
    by (rule grantAccessCephx_refused [OF g2])
  from grantAccessCephx_error_pointer [of ?b1 exampleArgs] g1 e1
  have p1: "fst (fst (grantAccessCephx exampleArgs ?b1)) = Some zeroAccessRight" by simp
  from grantAccessCephx_error_pointer [of ?b2 exampleArgs] g2
  have p2: "fst (fst (grantAccessCephx exampleArgs ?b2)) = None" by simp
  from p1 e1 p2 r2 show ?thesis by (simp add: prod_eq_iff)
qed

end
